theory Spec2Isabelle
  imports Complex_Main
begin

section \<open>Hybrid images: arrays, kernels and filters of hybrid.py\<close>

text \<open>
  The module works on numpy arrays. An array is modelled by nested lists, outermost
  axis first: an image of shape (H, W, C) is a list of H rows, each a list of W pixels,
  each a list of C samples; a kernel of shape (m, n) is a list of m rows of n weights.
  Samples are real numbers: the arithmetic of the module is read as exact arithmetic,
  of which the float64 computation is the rounded version. The element type of an
  array is kept as a tag, since \<open>create_hybrid_image\<close> branches on it.

  A numpy array is rectangular by construction; \<open>rect2\<close> and \<open>rect3\<close> state this
  of a nested list. The shape is read off the lists, so an array with an empty axis
  is taken to have its later axes empty as well.
\<close>

datatype error = ValueError | ZeroDivisionError

datatype np_dtype = UInt8 | Float32 | Float64

type_synonym array2 = "real list list"

type_synonym array3 = "real list list list"

record image =
  dtype :: np_dtype
  pixels :: array3

subsection \<open>Exceptions as values\<close>

definition ebind :: "error + 'a \<Rightarrow> ('a \<Rightarrow> error + 'b) \<Rightarrow> error + 'b" where
  "ebind r f = (case r of Inl e \<Rightarrow> Inl e | Inr x \<Rightarrow> f x)"

text \<open>A \<open>for\<close> loop that fills one cell per iteration; it stops at the first exception.\<close>

fun for_each :: "('a \<Rightarrow> error + 'b) \<Rightarrow> 'a list \<Rightarrow> error + 'b list" where
  "for_each f [] = Inr []"
| "for_each f (x # xs) =
     ebind (f x) (\<lambda>y. ebind (for_each f xs) (\<lambda>ys. Inr (y # ys)))"

subsection \<open>Shapes\<close>

definition cols2 :: "'a list list \<Rightarrow> nat" where
  "cols2 K = (case K of [] \<Rightarrow> 0 | r # _ \<Rightarrow> length r)"

definition dim0 :: "'a list list list \<Rightarrow> nat" where
  "dim0 A = length A"

definition dim1 :: "'a list list list \<Rightarrow> nat" where
  "dim1 A = (case A of [] \<Rightarrow> 0 | r # _ \<Rightarrow> length r)"

definition dim2 :: "'a list list list \<Rightarrow> nat" where
  "dim2 A = (case A of [] \<Rightarrow> 0 | r # _ \<Rightarrow> (case r of [] \<Rightarrow> 0 | p # _ \<Rightarrow> length p))"

definition rect2 :: "'a list list \<Rightarrow> bool" where
  "rect2 K = list_all (\<lambda>r. length r = cols2 K) K"

definition rect3 :: "'a list list list \<Rightarrow> bool" where
  "rect3 A = list_all (\<lambda>r. length r = dim1 A \<and> list_all (\<lambda>p. length p = dim2 A) r) A"

subsection \<open>numpy operations used by the module\<close>

text \<open>\<open>np.zeros((h, w))\<close>: numpy refuses a negative dimension.\<close>

definition np_zeros2 :: "int \<Rightarrow> int \<Rightarrow> error + array2" where
  "np_zeros2 h w =
     (if h < 0 \<or> w < 0 then Inl ValueError
      else Inr (replicate (nat h) (replicate (nat w) 0)))"

text \<open>\<open>range(n)\<close> for a Python integer: empty when \<open>n \<le> 0\<close>.\<close>

definition py_range :: "int \<Rightarrow> int list" where
  "py_range n = map int [0..<nat n]"

text \<open>Python's division of numbers raises on a zero divisor.\<close>

definition py_div :: "real \<Rightarrow> real \<Rightarrow> error + real" where
  "py_div a b = (if b = 0 then Inl ZeroDivisionError else Inr (a / b))"

definition np_sum2 :: "array2 \<Rightarrow> real" where
  "np_sum2 K = sum_list (map sum_list K)"

text \<open>
  Broadcasting of an elementwise operation: two axis lengths go together when they are
  equal or one of them is 1, and the axis of length 1 is read at index 0 throughout.
\<close>

definition bc_dim :: "nat \<Rightarrow> nat \<Rightarrow> nat option" where
  "bc_dim a b =
     (if a = b then Some a else if a = 1 then Some b else if b = 1 then Some a else None)"

definition bc_ix :: "nat \<Rightarrow> nat \<Rightarrow> nat" where
  "bc_ix d i = (if d = 1 then 0 else i)"

definition np_binop2 :: "(real \<Rightarrow> real \<Rightarrow> real) \<Rightarrow> array2 \<Rightarrow> array2 \<Rightarrow> error + array2" where
  "np_binop2 f A B =
     (case (bc_dim (length A) (length B), bc_dim (cols2 A) (cols2 B)) of
        (Some r, Some c) \<Rightarrow>
          Inr (map (\<lambda>u. map (\<lambda>v.
                 f (A ! bc_ix (length A) u ! bc_ix (cols2 A) v)
                   (B ! bc_ix (length B) u ! bc_ix (cols2 B) v)) [0..<c]) [0..<r])
      | _ \<Rightarrow> Inl ValueError)"

definition np_binop3 :: "(real \<Rightarrow> real \<Rightarrow> real) \<Rightarrow> array3 \<Rightarrow> array3 \<Rightarrow> error + array3" where
  "np_binop3 f A B =
     (case (bc_dim (dim0 A) (dim0 B), bc_dim (dim1 A) (dim1 B), bc_dim (dim2 A) (dim2 B)) of
        (Some h, Some w, Some c) \<Rightarrow>
          Inr (map (\<lambda>i. map (\<lambda>j. map (\<lambda>k.
                 f (A ! bc_ix (dim0 A) i ! bc_ix (dim1 A) j ! bc_ix (dim2 A) k)
                   (B ! bc_ix (dim0 B) i ! bc_ix (dim1 B) j ! bc_ix (dim2 B) k))
                 [0..<c]) [0..<w]) [0..<h])
      | _ \<Rightarrow> Inl ValueError)"

text \<open>
  \<open>np.pad(img, ((ph, ph), (pw, pw), (0, 0)), mode='constant', constant_values=0)\<close>:
  \<open>ph\<close> rows of zeros above and below, \<open>pw\<close> zero pixels left and right of every row.
\<close>

definition np_pad :: "array3 \<Rightarrow> nat \<Rightarrow> nat \<Rightarrow> array3" where
  "np_pad A ph pw =
     (let zpx = replicate (dim2 A) 0;
          zrow = replicate (dim1 A + 2 * pw) zpx
      in replicate ph zrow
         @ map (\<lambda>row. replicate pw zpx @ row @ replicate pw zpx) A
         @ replicate ph zrow)"

text \<open>The slice \<open>padded[i:i+m, j:j+n, k]\<close>; a Python slice stops at the end of the axis.\<close>

definition slice_patch :: "array3 \<Rightarrow> nat \<Rightarrow> nat \<Rightarrow> nat \<Rightarrow> nat \<Rightarrow> nat \<Rightarrow> array2" where
  "slice_patch P i j k m n =
     map (\<lambda>row. map (\<lambda>px. px ! k) (take n (drop j row))) (take m (drop i P))"

text \<open>\<open>np.flip(kernel)\<close> reverses every axis.\<close>

definition np_flip :: "array2 \<Rightarrow> array2" where
  "np_flip K = rev (map rev K)"

definition scale_by :: "real \<Rightarrow> array3 \<Rightarrow> array3" where
  "scale_by c A = map (map (map (\<lambda>x. x * c))) A"

text \<open>\<open>.clip(0, 255)\<close> on one sample.\<close>

definition clip :: "real \<Rightarrow> real \<Rightarrow> real \<Rightarrow> real" where
  "clip lo hi x = min hi (max lo x)"

text \<open>
  \<open>.astype(np.uint8)\<close> on one sample drops the fractional part. The module applies it
  to clipped samples only; no wrap-around is modelled for a value outside [0, 255].
\<close>

definition astype_uint8 :: "real \<Rightarrow> real" where
  "astype_uint8 x = (if x < 0 then - real_of_int \<lfloor>- x\<rfloor> else real_of_int \<lfloor>x\<rfloor>)"

text \<open>\<open>img.astype(np.float32) / 255.0\<close>.\<close>

definition normalize255 :: "image \<Rightarrow> image" where
  "normalize255 img = \<lparr>dtype = Float32, pixels = map (map (map (\<lambda>x. x / 255))) (pixels img)\<rparr>"

text \<open>
  \<open>str.lower()\<close>, on the strings of bytes that the model has: the letters A to Z are
  mapped to a to z, every other byte is kept.
\<close>

definition lower_char :: "char \<Rightarrow> char" where
  "lower_char c =
     (let n = (of_char c :: nat) in if 65 \<le> n \<and> n \<le> 90 then char_of (n + 32) else c)"

definition lower :: "string \<Rightarrow> string" where
  "lower s = map lower_char s"

subsection \<open>The functions of hybrid.py\<close>

text \<open>
  \<open>sigma\<close> is a Python number, so \<open>... / (2 * sigma ** 2)\<close> is Python's division. The
  loop writes every cell of the array made by \<open>np.zeros\<close>, so the kernel before
  normalisation is the table of the values written.
\<close>

definition gaussian_blur_kernel_2d :: "real \<Rightarrow> int \<Rightarrow> int \<Rightarrow> error + array2" where
  "gaussian_blur_kernel_2d sigma height width =
     ebind (np_zeros2 height width) (\<lambda>_.
       let center_x = width div 2;
           center_y = height div 2
       in ebind
            (for_each (\<lambda>i. for_each (\<lambda>j.
               ebind (py_div (- real_of_int ((i - center_y) ^ 2 + (j - center_x) ^ 2))
                             (2 * sigma ^ 2))
                     (\<lambda>q. Inr (exp q)))
               (py_range width)) (py_range height))
            (\<lambda>kernel. Inr (map (map (\<lambda>x. x / np_sum2 kernel)) kernel)))"

definition cross_correlation_2d :: "image \<Rightarrow> array2 \<Rightarrow> error + image" where
  "cross_correlation_2d img kern =
     (let pad_height = length kern div 2;
          pad_width = cols2 kern div 2;
          padded_img = np_pad (pixels img) pad_height pad_width
      in ebind
           (for_each (\<lambda>i. for_each (\<lambda>j. for_each (\<lambda>k.
              ebind (np_binop2 (*)
                       (slice_patch padded_img i j k (length kern) (cols2 kern)) kern)
                    (\<lambda>prod. Inr (np_sum2 prod)))
              [0..<dim2 (pixels img)]) [0..<dim1 (pixels img)]) [0..<dim0 (pixels img)])
           (\<lambda>result. Inr \<lparr>dtype = Float64, pixels = result\<rparr>))"

definition convolve_2d :: "image \<Rightarrow> array2 \<Rightarrow> error + image" where
  "convolve_2d img kern = cross_correlation_2d img (np_flip kern)"

definition low_pass :: "image \<Rightarrow> real \<Rightarrow> int \<Rightarrow> error + image" where
  "low_pass img sigma ksize =
     ebind (gaussian_blur_kernel_2d sigma ksize ksize) (\<lambda>kern.
       cross_correlation_2d img kern)"

text \<open>The subtrahend is a float64 array, so the difference is one whatever \<open>img\<close> holds.\<close>

definition high_pass :: "image \<Rightarrow> real \<Rightarrow> int \<Rightarrow> error + image" where
  "high_pass img sigma ksize =
     ebind (low_pass img sigma ksize) (\<lambda>low_pass_filtered_img.
       ebind (np_binop3 (-) (pixels img) (pixels low_pass_filtered_img)) (\<lambda>d.
         Inr \<lparr>dtype = Float64, pixels = d\<rparr>))"

definition create_hybrid_image ::
  "image \<Rightarrow> image \<Rightarrow> real \<Rightarrow> int \<Rightarrow> string \<Rightarrow> real \<Rightarrow> int \<Rightarrow> string \<Rightarrow> real \<Rightarrow> real
   \<Rightarrow> error + image" where
  "create_hybrid_image img1 img2 sigma1 size1 high_low1 sigma2 size2 high_low2
                       mixin_ratio scale_factor =
     (let hl1 = lower high_low1;
          hl2 = lower high_low2;
          a1 = (if dtype img1 = UInt8 then normalize255 img1 else img1);
          a2 = (if dtype img1 = UInt8 then normalize255 img2 else img2)
      in ebind (if hl1 = ''low'' then low_pass a1 sigma1 size1
                else high_pass a1 sigma1 size1) (\<lambda>f1.
         ebind (if hl2 = ''low'' then low_pass a2 sigma2 size2
                else high_pass a2 sigma2 size2) (\<lambda>f2.
         ebind (np_binop3 (+) (scale_by (1 - mixin_ratio) (pixels f1))
                              (scale_by mixin_ratio (pixels f2))) (\<lambda>s.
         Inr \<lparr>dtype = UInt8,
              pixels = map (map (map (\<lambda>x. astype_uint8 (clip 0 255 (x * 255)))))
                           (scale_by scale_factor s)\<rparr>))))"

subsection \<open>The specification's formulas\<close>

text \<open>
  The definitions of this subsection are not translations of code. They write down, index
  by index, what the specification says a result is; the theorems below compare them with
  the functions above.
\<close>

text \<open>An array of shape (h, w, c) given by its samples.\<close>

definition table3 :: "nat \<Rightarrow> nat \<Rightarrow> nat \<Rightarrow> (nat \<Rightarrow> nat \<Rightarrow> nat \<Rightarrow> real) \<Rightarrow> array3" where
  "table3 h w c g = map (\<lambda>i. map (\<lambda>j. map (\<lambda>k. g i j k) [0..<c]) [0..<w]) [0..<h]"

text \<open>
  The Gaussian weight of cell (i, j) of an h by w kernel before normalisation,
  \<open>exp (- ((i - cy)\<^sup>2 + (j - cx)\<^sup>2) / (2 sigma\<^sup>2))\<close> with \<open>cy = h div 2\<close> and \<open>cx = w div 2\<close>;
  the table of these weights; and the table divided by the sum of its entries.
\<close>

definition gauss_cell :: "real \<Rightarrow> int \<Rightarrow> int \<Rightarrow> nat \<Rightarrow> nat \<Rightarrow> real" where
  "gauss_cell sigma h w i j =
     exp (- real_of_int ((int i - h div 2) ^ 2 + (int j - w div 2) ^ 2) / (2 * sigma ^ 2))"

definition gauss_table :: "real \<Rightarrow> int \<Rightarrow> int \<Rightarrow> array2" where
  "gauss_table sigma h w = map (\<lambda>i. map (\<lambda>j. gauss_cell sigma h w i j) [0..<nat w]) [0..<nat h]"

definition gauss_kernel :: "real \<Rightarrow> int \<Rightarrow> int \<Rightarrow> array2" where
  "gauss_kernel sigma h w =
     map (map (\<lambda>x. x / np_sum2 (gauss_table sigma h w))) (gauss_table sigma h w)"

text \<open>
  The flipped kernel of the convolution adapter: its entry (i, j) is the entry
  (m - 1 - i, n - 1 - j) of the given kernel of shape (m, n).
\<close>

definition flip_spec :: "array2 \<Rightarrow> array2" where
  "flip_spec K =
     map (\<lambda>i. map (\<lambda>j. K ! (length K - 1 - i) ! (cols2 K - 1 - j)) [0..<cols2 K]) [0..<length K]"

text \<open>
  Zero padding, by coordinates: the sample at row \<open>a\<close>, column \<open>b\<close>, channel \<open>k\<close> of the
  image padded by \<open>ph\<close> rows and \<open>pw\<close> columns is the sample of the image at
  (a - ph, b - pw, k) where that lies in the image, and 0 elsewhere. The correlation at
  (i, j, k) is the sum of the products of the kernel with the window of the padded image
  that starts at (i, j).
\<close>

definition padded_sample :: "array3 \<Rightarrow> nat \<Rightarrow> nat \<Rightarrow> nat \<Rightarrow> nat \<Rightarrow> nat \<Rightarrow> real" where
  "padded_sample A ph pw a b k =
     (if ph \<le> a \<and> a < ph + dim0 A \<and> pw \<le> b \<and> b < pw + dim1 A
      then A ! (a - ph) ! (b - pw) ! k else 0)"

definition corr_sample :: "array3 \<Rightarrow> array2 \<Rightarrow> nat \<Rightarrow> nat \<Rightarrow> nat \<Rightarrow> real" where
  "corr_sample A K i j k =
     (\<Sum>u<length K. \<Sum>v<cols2 K.
        K ! u ! v * padded_sample A (length K div 2) (cols2 K div 2) (i + u) (j + v) k)"

definition corr_table :: "array3 \<Rightarrow> array2 \<Rightarrow> array3" where
  "corr_table A K =
     map (\<lambda>i. map (\<lambda>j. map (\<lambda>k. corr_sample A K i j k) [0..<dim2 A]) [0..<dim1 A]) [0..<dim0 A]"

text \<open>
  The exception, if any, that a filter call raises for a sigma and a size: numpy's
  for a negative size, Python's for a division by \<open>2 * 0 ** 2\<close>, which takes place once
  the kernel has a cell.
\<close>

definition filter_error :: "real \<Rightarrow> int \<Rightarrow> error option" where
  "filter_error sigma ksize =
     (if ksize < 0 then Some ValueError
      else if sigma = 0 \<and> 0 < ksize then Some ZeroDivisionError else None)"

text \<open>
  One sample of the filter that a mode selects: the low-pass sample is the correlation
  with the normalised Gaussian kernel, the high-pass sample is the sample of the input
  minus its low-pass sample.
\<close>

definition filtered_sample ::
  "string \<Rightarrow> array3 \<Rightarrow> real \<Rightarrow> int \<Rightarrow> nat \<Rightarrow> nat \<Rightarrow> nat \<Rightarrow> real" where
  "filtered_sample high_low A sigma ksize i j k =
     (if lower high_low = ''low'' then corr_sample A (gauss_kernel sigma ksize ksize) i j k
      else A ! i ! j ! k - corr_sample A (gauss_kernel sigma ksize ksize) i j k)"

text \<open>
  One sample of the hybrid image from the two filtered samples: the weighted sum, times
  the scale factor, times 255, clipped to [0, 255] and truncated.
\<close>

definition hybrid_sample :: "real \<Rightarrow> real \<Rightarrow> real \<Rightarrow> real \<Rightarrow> real" where
  "hybrid_sample x1 x2 mixin_ratio scale_factor =
     astype_uint8 (clip 0 255 ((x1 * (1 - mixin_ratio) + x2 * mixin_ratio) * scale_factor * 255))"

text \<open>
  The samples of \<open>img\<close> as the filters receive them when the element type of \<open>img1\<close>
  decides on the division by 255. \<open>normalized_by img img\<close> is the normalisation of an image
  by its own element type.
\<close>

definition normalized_by :: "image \<Rightarrow> image \<Rightarrow> array3" where
  "normalized_by img1 img =
     (if dtype img1 = UInt8 then map (map (map (\<lambda>x. x / 255))) (pixels img) else pixels img)"

text \<open>Two shapes that numpy can broadcast together.\<close>

definition broadcastable :: "array3 \<Rightarrow> array3 \<Rightarrow> bool" where
  "broadcastable A B =
     (bc_dim (dim0 A) (dim0 B) \<noteq> None \<and> bc_dim (dim1 A) (dim1 B) \<noteq> None
      \<and> bc_dim (dim2 A) (dim2 B) \<noteq> None)"

text \<open>A sample that is a value of an 8-bit unsigned integer: a whole number in [0, 255].\<close>

definition is_uint8 :: "real \<Rightarrow> bool" where
  "is_uint8 x = (x = real_of_int \<lfloor>x\<rfloor> \<and> 0 \<le> x \<and> x \<le> 255)"

section \<open>Properties\<close>

subsection \<open>Exceptions and loops\<close>

lemma ebind_Inr [simp]: "ebind (Inr x) f = f x"
  by (simp add: ebind_def)

lemma ebind_Inl [simp]: "ebind (Inl e) f = Inl e"
  by (simp add: ebind_def)

lemma for_each_Inr: "(\<And>x. x \<in> set xs \<Longrightarrow> f x = Inr (g x)) \<Longrightarrow> for_each f xs = Inr (map g xs)"
  by (induction xs) simp_all

lemma for_each_Inl: "xs \<noteq> [] \<Longrightarrow> (\<And>x. x \<in> set xs \<Longrightarrow> f x = Inl e) \<Longrightarrow> for_each f xs = Inl e"
  by (cases xs) simp_all

lemmas eval_defs = create_hybrid_image_def normalize255_def lower_def lower_char_def
  low_pass_def high_pass_def gaussian_blur_kernel_2d_def np_zeros2_def py_range_def py_div_def
  np_sum2_def cross_correlation_2d_def cols2_def np_pad_def dim0_def dim1_def dim2_def
  slice_patch_def np_binop2_def np_binop3_def bc_dim_def bc_ix_def Let_def scale_by_def
  clip_def astype_uint8_def upt_conv_Cons

subsection \<open>The Gaussian table and the flip of a kernel\<close>

lemma gaussian_returns:
  assumes "0 \<le> h" "0 \<le> w" "sigma \<noteq> 0 \<or> h = 0 \<or> w = 0"
  shows "gaussian_blur_kernel_2d sigma h w = Inr (gauss_kernel sigma h w)"
proof -
  let ?cell = "\<lambda>i j. ebind (py_div (- real_of_int ((i - h div 2) ^ 2 + (j - w div 2) ^ 2))
                             (2 * sigma ^ 2)) (\<lambda>q. Inr (exp q))"
  have row: "for_each (\<lambda>j. ?cell i j) (py_range w) =
             Inr (map (\<lambda>j. gauss_cell sigma h w (nat i) (nat j)) (py_range w))"
    if "i \<in> set (py_range h)" for i
    by (rule for_each_Inr)
       (use that assms in \<open>auto simp: py_div_def gauss_cell_def py_range_def\<close>)
  have "for_each (\<lambda>i. for_each (\<lambda>j. ?cell i j) (py_range w)) (py_range h) =
        Inr (map (\<lambda>i. map (\<lambda>j. gauss_cell sigma h w (nat i) (nat j)) (py_range w)) (py_range h))"
    by (rule for_each_Inr) (rule row)
  then show ?thesis
    using assms
    by (simp add: gaussian_blur_kernel_2d_def np_zeros2_def Let_def gauss_kernel_def
        gauss_table_def py_range_def comp_def)
qed

lemma gaussian_zero_sigma:
  assumes "0 < h" "0 < w"
  shows "gaussian_blur_kernel_2d 0 h w = Inl ZeroDivisionError"
proof -
  have "py_range h \<noteq> []" "py_range w \<noteq> []"
    using assms by (simp_all add: py_range_def)
  then show ?thesis
    using assms
    by (simp add: gaussian_blur_kernel_2d_def np_zeros2_def Let_def py_div_def for_each_Inl)
qed

lemma gaussian_negative:
  "h < 0 \<or> w < 0 \<Longrightarrow> gaussian_blur_kernel_2d sigma h w = Inl ValueError"
  by (simp add: gaussian_blur_kernel_2d_def np_zeros2_def)

lemma rect2_length: "rect2 K \<Longrightarrow> i < length K \<Longrightarrow> length (K ! i) = cols2 K"
  by (simp add: rect2_def list_all_length)

lemma np_flip_eq_spec: "rect2 K \<Longrightarrow> np_flip K = flip_spec K"
  unfolding np_flip_def flip_spec_def
  by (intro nth_equalityI) (simp_all add: rev_nth rect2_length)

lemma gauss_cell_pos: "0 < gauss_cell sigma h w i j"
  by (simp add: gauss_cell_def)

lemma sum_list_pos: "xs \<noteq> [] \<Longrightarrow> (\<And>x. x \<in> set xs \<Longrightarrow> (0::real) < x) \<Longrightarrow> 0 < sum_list xs"
  by (induction xs rule: list_nonempty_induct) (auto intro: add_pos_pos)

lemma np_sum2_gauss_pos:
  assumes "0 < h" "0 < w"
  shows "0 < np_sum2 (gauss_table sigma h w)"
  unfolding np_sum2_def gauss_table_def using assms
  by (intro sum_list_pos) (auto simp: gauss_cell_pos intro!: sum_list_pos)

lemma sum_list_divide: "sum_list (map (\<lambda>x. x / s) xs) = sum_list xs / (s::real)"
  by (induction xs) (simp_all add: add_divide_distrib)

lemma np_sum2_divide: "np_sum2 (map (map (\<lambda>x. x / s)) K) = np_sum2 K / s"
  by (induction K) (simp_all add: np_sum2_def sum_list_divide add_divide_distrib)

lemma cols2_gauss_table: "0 < h \<Longrightarrow> cols2 (gauss_table sigma h w) = nat w"
  by (simp add: gauss_table_def cols2_def upt_conv_Cons)

lemma rect2_gauss_table: "rect2 (gauss_table sigma h w)"
proof (cases "0 < h")
  case True
  then show ?thesis
    by (simp add: rect2_def cols2_gauss_table list_all_iff) (auto simp: gauss_table_def)
next
  case False
  then show ?thesis by (simp add: rect2_def gauss_table_def)
qed

lemma odd_centre:
  assumes "odd (h::int)" "i < nat h"
  shows "int (nat h - Suc i) - h div 2 = - (int i - h div 2)"
  using assms by (auto elim!: oddE)

lemma gauss_cell_flip:
  assumes "odd h" "odd w" "i < nat h" "j < nat w"
  shows "gauss_cell sigma h w (nat h - Suc i) (nat w - Suc j) = gauss_cell sigma h w i j"
  by (simp only: gauss_cell_def odd_centre [OF assms(1,3)] odd_centre [OF assms(2,4)] power2_minus)

lemma gauss_table_flip:
  assumes "odd h" "odd w" "0 < h"
  shows "np_flip (gauss_table sigma h w) = gauss_table sigma h w"
  using assms
  by (simp add: np_flip_eq_spec rect2_gauss_table flip_spec_def cols2_gauss_table)
     (simp add: gauss_table_def gauss_cell_flip)

lemma np_flip_map: "np_flip (map (map f) K) = map (map f) (np_flip K)"
  by (simp add: np_flip_def rev_map)

subsection \<open>Zero padding and the correlation loop\<close>

lemma rect3_row: "rect3 A \<Longrightarrow> i < length A \<Longrightarrow> length (A ! i) = dim1 A"
  by (simp add: rect3_def list_all_length)

lemma rect3_px: "rect3 A \<Longrightarrow> i < length A \<Longrightarrow> j < dim1 A \<Longrightarrow> length (A ! i ! j) = dim2 A"
  by (simp add: rect3_def list_all_length)

lemma length_np_pad: "length (np_pad A ph pw) = dim0 A + 2 * ph"
  by (simp add: np_pad_def Let_def dim0_def)

lemma np_pad_row:
  assumes "rect3 A" "a < dim0 A + 2 * ph"
  shows "length (np_pad A ph pw ! a) = dim1 A + 2 * pw"
  using assms by (auto simp: np_pad_def Let_def nth_append rect3_row dim0_def)

lemma np_pad_sample:
  assumes "rect3 A" "a < dim0 A + 2 * ph" "b < dim1 A + 2 * pw" "k < dim2 A"
  shows "np_pad A ph pw ! a ! b ! k = padded_sample A ph pw a b k"
  using assms
  by (auto simp: np_pad_def Let_def nth_append padded_sample_def dim0_def rect3_row not_less)

lemma bc_dim_same [simp]: "bc_dim d d = Some d"
  by (simp add: bc_dim_def)

lemma bc_ix_same: "i < d \<Longrightarrow> bc_ix d i = i"
  by (auto simp: bc_ix_def)

lemma rect2_cols_empty: "length K = 0 \<Longrightarrow> cols2 K = 0"
  by (simp add: cols2_def)

lemma np_binop2_same:
  assumes "length X = length Y" "cols2 X = cols2 Y"
  shows "np_binop2 f X Y =
         Inr (map (\<lambda>u. map (\<lambda>v. f (X ! u ! v) (Y ! u ! v)) [0..<cols2 Y]) [0..<length Y])"
  using assms by (simp add: np_binop2_def bc_ix_same)

lemma sum_list_upt: "sum_list (map f [0..<n]) = (\<Sum>i<n. f i)"
  by (simp add: interv_sum_list_conv_sum_set_nat atLeast0LessThan)

lemma np_sum2_table:
  "np_sum2 (map (\<lambda>u. map (\<lambda>v. g u v) [0..<n]) [0..<m]) = (\<Sum>u<m. \<Sum>v<n. g u v)"
  by (simp add: np_sum2_def comp_def sum_list_upt)

lemma slice_patch_table:
  assumes "rect3 A" "rect2 K" "i < dim0 A" "j < dim1 A"
  shows "slice_patch (np_pad A (length K div 2) (cols2 K div 2)) i j k (length K) (cols2 K) =
         map (\<lambda>u. map (\<lambda>v. np_pad A (length K div 2) (cols2 K div 2) ! (i + u) ! (j + v) ! k)
                [0..<cols2 K]) [0..<length K]"
    (is "slice_patch ?P i j k ?m ?n = ?T")
proof (rule nth_equalityI)
  have lenP: "length ?P = dim0 A + 2 * (?m div 2)"
    by (rule length_np_pad)
  have m: "?m \<le> length ?P - i"
    using assms(3) unfolding lenP by linarith
  show len: "length (slice_patch ?P i j k ?m ?n) = length ?T"
    using m by (simp add: slice_patch_def)
  fix u assume "u < length (slice_patch ?P i j k ?m ?n)"
  then have u: "u < ?m" using len by simp
  then have iu: "i + u < dim0 A + 2 * (?m div 2)"
    using assms(3) by linarith
  have lenrow: "length (?P ! (i + u)) = dim1 A + 2 * (?n div 2)"
    by (rule np_pad_row [OF assms(1) iu])
  have n: "?n \<le> length (?P ! (i + u)) - j"
    using assms(4) unfolding lenrow by linarith
  have "slice_patch ?P i j k ?m ?n ! u = map (\<lambda>px. px ! k) (take ?n (drop j (?P ! (i + u))))"
    using u m by (simp add: slice_patch_def)
  also have "\<dots> = map (\<lambda>v. ?P ! (i + u) ! (j + v) ! k) [0..<?n]"
    by (rule nth_equalityI) (use n in \<open>simp_all\<close>)
  also have "\<dots> = ?T ! u"
    using u by simp
  finally show "slice_patch ?P i j k ?m ?n ! u = ?T ! u" .
qed

lemma cols2_table: "cols2 (map (\<lambda>u. map (g u) [0..<n]) [0..<m]) = (if m = 0 then 0 else n)"
  by (simp add: cols2_def upt_conv_Cons)

lemma correlation_cell:
  assumes "rect3 A" "rect2 K" "i < dim0 A" "j < dim1 A" "k < dim2 A"
  shows "ebind (np_binop2 (*)
                 (slice_patch (np_pad A (length K div 2) (cols2 K div 2)) i j k
                    (length K) (cols2 K)) K)
               (\<lambda>prod. Inr (np_sum2 prod)) = Inr (corr_sample A K i j k)"
proof -
  let ?P = "np_pad A (length K div 2) (cols2 K div 2)"
  let ?T = "map (\<lambda>u. map (\<lambda>v. ?P ! (i + u) ! (j + v) ! k) [0..<cols2 K]) [0..<length K]"
  have patch: "slice_patch ?P i j k (length K) (cols2 K) = ?T"
    by (rule slice_patch_table [OF assms(1-4)])
  have c: "cols2 ?T = cols2 K"
    by (simp add: cols2_table rect2_cols_empty)
  have "np_binop2 (*) ?T K =
        Inr (map (\<lambda>u. map (\<lambda>v. ?P ! (i + u) ! (j + v) ! k * K ! u ! v) [0..<cols2 K])
               [0..<length K])"
    by (subst np_binop2_same) (simp_all add: c)
  moreover have "(\<Sum>u<length K. \<Sum>v<cols2 K. ?P ! (i + u) ! (j + v) ! k * K ! u ! v) =
                 corr_sample A K i j k"
    unfolding corr_sample_def
  proof (intro sum.cong refl)
    fix u v assume "u \<in> {..<length K}" "v \<in> {..<cols2 K}"
    then have "i + u < dim0 A + 2 * (length K div 2)" "j + v < dim1 A + 2 * (cols2 K div 2)"
      using assms(3,4) by auto
    then show "?P ! (i + u) ! (j + v) ! k * K ! u ! v =
               K ! u ! v * padded_sample A (length K div 2) (cols2 K div 2) (i + u) (j + v) k"
      using assms(1,5) by (simp add: np_pad_sample)
  qed
  ultimately show ?thesis
    by (simp add: patch np_sum2_table)
qed

lemma cross_correlation_table:
  assumes "rect3 (pixels img)" "rect2 K"
  shows "cross_correlation_2d img K = Inr \<lparr>dtype = Float64, pixels = corr_table (pixels img) K\<rparr>"
proof -
  let ?A = "pixels img"
  let ?cell = "\<lambda>i j k. ebind (np_binop2 (*)
                 (slice_patch (np_pad ?A (length K div 2) (cols2 K div 2)) i j k
                    (length K) (cols2 K)) K) (\<lambda>prod. Inr (np_sum2 prod))"
  have px: "for_each (?cell i j) [0..<dim2 ?A] = Inr (map (corr_sample ?A K i j) [0..<dim2 ?A])"
    if "i < dim0 ?A" "j < dim1 ?A" for i j
    by (rule for_each_Inr) (use that assms in \<open>simp add: correlation_cell\<close>)
  have row: "for_each (\<lambda>j. for_each (?cell i j) [0..<dim2 ?A]) [0..<dim1 ?A] =
             Inr (map (\<lambda>j. map (corr_sample ?A K i j) [0..<dim2 ?A]) [0..<dim1 ?A])"
    if "i < dim0 ?A" for i
    by (rule for_each_Inr) (use that in \<open>simp add: px\<close>)
  have "for_each (\<lambda>i. for_each (\<lambda>j. for_each (?cell i j) [0..<dim2 ?A]) [0..<dim1 ?A])
          [0..<dim0 ?A] = Inr (corr_table ?A K)"
    unfolding corr_table_def
    by (rule for_each_Inr) (simp add: row)
  then show ?thesis
    by (simp add: cross_correlation_2d_def Let_def)
qed

lemma dim1_table: "dim1 (map f [0..<n]) = (if n = 0 then 0 else length (f 0))"
  by (simp add: dim1_def upt_conv_Cons)

lemma dim2_table:
  "dim2 (map (\<lambda>i. map (g i) [0..<w]) [0..<n]) = (if n = 0 \<or> w = 0 then 0 else length (g 0 0))"
  by (cases "n = 0"; cases "w = 0") (simp_all add: dim2_def upt_conv_Cons)

lemma dim1_empty: "dim0 A = 0 \<Longrightarrow> dim1 A = 0"
  by (simp add: dim0_def dim1_def)

lemma dim2_empty: "dim0 A = 0 \<or> dim1 A = 0 \<Longrightarrow> dim2 A = 0"
  by (auto simp: dim0_def dim1_def dim2_def split: list.splits)

lemma dims_corr_table:
  "dim0 (corr_table A K) = dim0 A" "dim1 (corr_table A K) = dim1 A"
  "dim2 (corr_table A K) = dim2 A"
  using dim2_empty [of A]
  by (auto simp: corr_table_def dim0_def dim1_table dim2_table dim1_empty)

lemma rect3_corr_table: "rect3 (corr_table A K)"
  unfolding rect3_def dims_corr_table
  by (simp add: corr_table_def list_all_iff)

lemma corr_table_nth:
  "i < dim0 A \<Longrightarrow> j < dim1 A \<Longrightarrow> k < dim2 A \<Longrightarrow>
   corr_table A K ! i ! j ! k = corr_sample A K i j k"
  by (simp add: corr_table_def)

lemma corr_sample_interior:
  assumes "length K div 2 \<le> i" "i + length K div 2 < dim0 A"
    "cols2 K div 2 \<le> j" "j + cols2 K div 2 < dim1 A"
  shows "corr_sample A K i j k =
         (\<Sum>u<length K. \<Sum>v<cols2 K.
            K ! u ! v * A ! (i + u - length K div 2) ! (j + v - cols2 K div 2) ! k)"
  unfolding corr_sample_def
proof (intro sum.cong refl)
  fix u v assume "u \<in> {..<length K}" "v \<in> {..<cols2 K}"
  then have "length K div 2 \<le> i + u" "i + u < length K div 2 + dim0 A"
    "cols2 K div 2 \<le> j + v" "j + v < cols2 K div 2 + dim1 A"
    using assms by auto
  then show "K ! u ! v * padded_sample A (length K div 2) (cols2 K div 2) (i + u) (j + v) k =
        K ! u ! v * A ! (i + u - length K div 2) ! (j + v - cols2 K div 2) ! k"
    by (simp add: padded_sample_def)
qed

text \<open>
  C1. For a rectangular image of shape (H, W, C) and a rectangular kernel of odd shape
  (m, n), \<open>cross_correlation_2d\<close> returns an image of the same shape. Its sample at
  (i, j, k) is the sum over the kernel cells (u, v) of the weight times the sample of the
  image padded by m div 2 zero rows above and below and n div 2 zero columns left and
  right (\<open>corr_sample\<close>, over \<open>padded_sample\<close>). At a pixel at least m div 2 rows and
  n div 2 columns away from the borders this is the weighted sum over the image itself.
\<close>

theorem cross_correlation_2d_window_sum:
  assumes "rect3 (pixels img)" "rect2 K" "odd (length K)" "odd (cols2 K)"
  shows "\<exists>out. cross_correlation_2d img K = Inr out
           \<and> dim0 (pixels out) = dim0 (pixels img)
           \<and> dim1 (pixels out) = dim1 (pixels img)
           \<and> dim2 (pixels out) = dim2 (pixels img)
           \<and> rect3 (pixels out)
           \<and> (\<forall>i<dim0 (pixels img). \<forall>j<dim1 (pixels img). \<forall>k<dim2 (pixels img).
                pixels out ! i ! j ! k = corr_sample (pixels img) K i j k
                \<and> (length K div 2 \<le> i \<and> i + length K div 2 < dim0 (pixels img)
                    \<and> cols2 K div 2 \<le> j \<and> j + cols2 K div 2 < dim1 (pixels img)
                   \<longrightarrow> pixels out ! i ! j ! k =
                       (\<Sum>u<length K. \<Sum>v<cols2 K.
                          K ! u ! v * pixels img ! (i + u - length K div 2)
                                                ! (j + v - cols2 K div 2) ! k)))"
proof -
  let ?out = "\<lparr>dtype = Float64, pixels = corr_table (pixels img) K\<rparr>"
  have "cross_correlation_2d img K = Inr ?out"
    by (rule cross_correlation_table [OF assms(1,2)])
  then show ?thesis
    by (intro exI [of _ ?out])
       (auto simp: dims_corr_table rect3_corr_table corr_table_nth corr_sample_interior)
qed

theorem cross_correlation_2d_window_sum_witness:
  "\<exists>out. cross_correlation_2d \<lparr>dtype = UInt8, pixels = [[[1], [2], [3]]]\<rparr> [[1, 2, 3]] = Inr out
     \<and> dim1 (pixels out) = 3 \<and> pixels out ! 0 ! 1 ! 0 = 14"
proof -
  let ?A = "[[[1], [2], [3::real]]]" and ?K = "[[1, 2, 3::real]]"
  have h: "rect3 (pixels \<lparr>dtype = UInt8, pixels = ?A\<rparr>)" "rect2 ?K"
    "odd (length ?K)" "odd (cols2 ?K)"
    by (simp_all add: rect3_def rect2_def dim1_def dim2_def cols2_def)
  have d: "dim0 ?A = 1" "dim1 ?A = 3" "dim2 ?A = 1" "length ?K = 1" "cols2 ?K = 3"
    by (simp_all add: dim0_def dim1_def dim2_def cols2_def)
  obtain out where o: "cross_correlation_2d \<lparr>dtype = UInt8, pixels = ?A\<rparr> ?K = Inr out"
    "dim1 (pixels out) = 3" "pixels out ! 0 ! 1 ! 0 = corr_sample ?A ?K 0 1 0"
    using cross_correlation_2d_window_sum [OF h] by (auto simp: d)
  have "corr_sample ?A ?K 0 1 0 = 14"
    by (simp add: corr_sample_def padded_sample_def d) (simp add: eval_nat_numeral)
  with o show ?thesis by auto
qed

subsection \<open>The kernel generator and the convolution adapter\<close>

lemma rect2_map: "rect2 K \<Longrightarrow> rect2 (map (map f) K)"
  by (cases K) (simp_all add: rect2_def cols2_def list_all_iff)

lemma cols2_map: "cols2 (map (map f) K) = cols2 K"
  by (cases K) (simp_all add: cols2_def)

lemma flip_spec_map: "rect2 K \<Longrightarrow> flip_spec (map (map f) K) = map (map f) (flip_spec K)"
  using np_flip_eq_spec [of K] np_flip_eq_spec [of "map (map f) K"]
  by (simp add: np_flip_map rect2_map)

lemma rect2_gauss_kernel: "rect2 (gauss_kernel sigma h w)"
  by (simp add: gauss_kernel_def rect2_map rect2_gauss_table)

lemma gauss_kernel_nth:
  "i < nat h \<Longrightarrow> j < nat w \<Longrightarrow>
   gauss_kernel sigma h w ! i ! j = gauss_cell sigma h w i j / np_sum2 (gauss_table sigma h w)"
  by (simp add: gauss_kernel_def gauss_table_def)

lemma length_gauss_kernel: "length (gauss_kernel sigma h w) = nat h"
  by (simp add: gauss_kernel_def gauss_table_def)

lemma cols2_gauss_kernel: "0 < h \<Longrightarrow> cols2 (gauss_kernel sigma h w) = nat w"
  by (simp add: gauss_kernel_def cols2_map cols2_gauss_table)

text \<open>
  C4. For \<open>sigma > 0\<close> and positive \<open>h\<close>, \<open>w\<close>, \<open>gaussian_blur_kernel_2d\<close> returns an
  \<open>h\<close> by \<open>w\<close> matrix whose entry (i, j) is
  \<open>exp (- ((i - h div 2)\<^sup>2 + (j - w div 2)\<^sup>2) / (2 sigma\<^sup>2))\<close> (\<open>gauss_cell\<close>) divided by one
  positive constant; its entries sum to 1, exactly in real arithmetic; and when \<open>h = w\<close>
  are odd it is unchanged by a rotation of 180 degrees (\<open>flip_spec\<close>).
\<close>

theorem gaussian_blur_kernel_2d_normalised:
  assumes "0 < sigma" "0 < h" "0 < w"
  shows "\<exists>K S. gaussian_blur_kernel_2d sigma h w = Inr K
           \<and> length K = nat h \<and> cols2 K = nat w \<and> rect2 K
           \<and> 0 < S
           \<and> (\<forall>i<nat h. \<forall>j<nat w. K ! i ! j = gauss_cell sigma h w i j / S)
           \<and> np_sum2 K = 1
           \<and> (odd h \<and> odd w \<and> h = w \<longrightarrow> flip_spec K = K)"
proof -
  let ?T = "gauss_table sigma h w"
  have pos: "0 < np_sum2 ?T"
    by (rule np_sum2_gauss_pos [OF assms(2,3)])
  then have total: "np_sum2 (gauss_kernel sigma h w) = 1"
    by (simp add: gauss_kernel_def np_sum2_divide)
  have "flip_spec (gauss_kernel sigma h w) = gauss_kernel sigma h w" if "odd h" "odd w"
    using gauss_table_flip [OF that assms(2), of sigma]
    by (simp add: gauss_kernel_def flip_spec_map np_flip_eq_spec rect2_gauss_table)
  then show ?thesis
    using assms pos total
    by (intro exI [of _ "gauss_kernel sigma h w"] exI [of _ "np_sum2 ?T"])
       (auto simp: gaussian_returns length_gauss_kernel cols2_gauss_kernel rect2_gauss_kernel
          gauss_kernel_nth)
qed

theorem gaussian_blur_kernel_2d_normalised_witness:
  "\<exists>K. gaussian_blur_kernel_2d 1 3 3 = Inr K \<and> length K = 3 \<and> np_sum2 K = 1 \<and> flip_spec K = K"
  using gaussian_blur_kernel_2d_normalised [of 1 3 3] by auto

text \<open>
  C5. For a rectangular kernel of shape (m, n), \<open>convolve_2d\<close> is \<open>cross_correlation_2d\<close>
  with the kernel whose entry (i, j) is the entry (m - 1 - i, n - 1 - j) of the given one
  (\<open>flip_spec\<close>); hence for a kernel that this flip leaves unchanged, convolution and
  correlation give the same result.
\<close>

theorem convolve_2d_flipped_correlation:
  assumes "rect2 K"
  shows "convolve_2d img K = cross_correlation_2d img (flip_spec K)
         \<and> (flip_spec K = K \<longrightarrow> convolve_2d img K = cross_correlation_2d img K)"
  using assms by (simp add: convolve_2d_def np_flip_eq_spec)

theorem convolve_2d_flipped_correlation_witness:
  "convolve_2d \<lparr>dtype = UInt8, pixels = [[[5], [7]]]\<rparr> [[1, 2, 1]] =
   cross_correlation_2d \<lparr>dtype = UInt8, pixels = [[[5], [7]]]\<rparr> [[1, 2, 1]]"
proof -
  have "rect2 [[1, 2, 1::real]]" "flip_spec [[1, 2, 1::real]] = [[1, 2, 1]]"
    by (simp_all add: rect2_def flip_spec_def cols2_def upt_conv_Cons)
  then show ?thesis
    using convolve_2d_flipped_correlation [of "[[1, 2, 1]]"] by simp
qed

subsection \<open>The low-pass and the high-pass filter\<close>

lemma table3_nth: "i < h \<Longrightarrow> j < w \<Longrightarrow> k < c \<Longrightarrow> table3 h w c g ! i ! j ! k = g i j k"
  by (simp add: table3_def)

lemma rect3_table_id:
  assumes "rect3 A"
  shows "table3 (dim0 A) (dim1 A) (dim2 A) (\<lambda>i j k. A ! i ! j ! k) = A"
  unfolding table3_def using assms
  by (intro nth_equalityI) (simp_all add: dim0_def rect3_row rect3_px)

lemma np_binop3_same:
  assumes "dim0 A = dim0 B" "dim1 A = dim1 B" "dim2 A = dim2 B"
  shows "np_binop3 f A B =
         Inr (table3 (dim0 B) (dim1 B) (dim2 B) (\<lambda>i j k. f (A ! i ! j ! k) (B ! i ! j ! k)))"
  using assms by (simp add: np_binop3_def table3_def bc_ix_same)

lemma corr_table_table3:
  "corr_table A K = table3 (dim0 A) (dim1 A) (dim2 A) (corr_sample A K)"
  by (simp add: corr_table_def table3_def)

lemma low_pass_returns:
  assumes "rect3 (pixels img)" "0 \<le> ksize" "sigma \<noteq> 0 \<or> ksize = 0"
  shows "low_pass img sigma ksize =
         Inr \<lparr>dtype = Float64, pixels = corr_table (pixels img) (gauss_kernel sigma ksize ksize)\<rparr>"
  using assms
  by (simp add: low_pass_def gaussian_returns cross_correlation_table rect2_gauss_kernel)

lemma low_pass_zero_sigma: "0 < ksize \<Longrightarrow> low_pass img 0 ksize = Inl ZeroDivisionError"
  by (simp add: low_pass_def gaussian_zero_sigma)

lemma low_pass_negative: "ksize < 0 \<Longrightarrow> low_pass img sigma ksize = Inl ValueError"
  by (simp add: low_pass_def gaussian_negative)

lemma high_pass_returns:
  assumes "rect3 (pixels img)" "0 \<le> ksize" "sigma \<noteq> 0 \<or> ksize = 0"
  shows "high_pass img sigma ksize =
         Inr \<lparr>dtype = Float64,
              pixels = table3 (dim0 (pixels img)) (dim1 (pixels img)) (dim2 (pixels img))
                 (\<lambda>i j k. pixels img ! i ! j ! k
                          - corr_sample (pixels img) (gauss_kernel sigma ksize ksize) i j k)\<rparr>"
  using assms
  by (simp add: high_pass_def low_pass_returns np_binop3_same dims_corr_table)
     (simp add: table3_def corr_table_def)

lemma high_pass_zero_sigma: "0 < ksize \<Longrightarrow> high_pass img 0 ksize = Inl ZeroDivisionError"
  by (simp add: high_pass_def low_pass_zero_sigma)

lemma high_pass_negative: "ksize < 0 \<Longrightarrow> high_pass img sigma ksize = Inl ValueError"
  by (simp add: high_pass_def low_pass_negative)

lemma dims_table3:
  "dim0 (table3 h w c g) = h"
  "dim1 (table3 h w c g) = (if h = 0 then 0 else w)"
  "dim2 (table3 h w c g) = (if h = 0 \<or> w = 0 then 0 else c)"
  by (simp_all add: table3_def dim0_def dim1_table dim2_table)

lemma dims_table3_of:
  "dim0 (table3 (dim0 A) (dim1 A) (dim2 A) g) = dim0 A"
  "dim1 (table3 (dim0 A) (dim1 A) (dim2 A) g) = dim1 A"
  "dim2 (table3 (dim0 A) (dim1 A) (dim2 A) g) = dim2 A"
  using dim1_empty [of A] dim2_empty [of A] by (auto simp: dims_table3)

lemma rect3_table3: "rect3 (table3 h w c g)"
  unfolding rect3_def dims_table3 by (auto simp: table3_def list_all_iff)

text \<open>
  C3. For a rectangular image, \<open>sigma > 0\<close> and a positive odd size, both filters return,
  and the elementwise sum of the high-pass and the low-pass result is the original image,
  sample by sample (exactly, in real arithmetic).
\<close>

theorem high_pass_plus_low_pass:
  assumes "rect3 (pixels img)" "0 < sigma" "0 < ksize" "odd ksize"
  shows "\<exists>hp lp. high_pass img sigma ksize = Inr hp \<and> low_pass img sigma ksize = Inr lp
           \<and> np_binop3 (+) (pixels hp) (pixels lp) = Inr (pixels img)"
proof -
  let ?A = "pixels img"
  let ?c = "corr_sample ?A (gauss_kernel sigma ksize ksize)"
  let ?H = "table3 (dim0 ?A) (dim1 ?A) (dim2 ?A) (\<lambda>i j k. ?A ! i ! j ! k - ?c i j k)"
  let ?L = "corr_table ?A (gauss_kernel sigma ksize ksize)"
  have p: "0 \<le> ksize" "sigma \<noteq> 0 \<or> ksize = 0"
    using assms by simp_all
  have hp: "high_pass img sigma ksize = Inr \<lparr>dtype = Float64, pixels = ?H\<rparr>"
    by (rule high_pass_returns [OF assms(1) p])
  have lp: "low_pass img sigma ksize = Inr \<lparr>dtype = Float64, pixels = ?L\<rparr>"
    by (rule low_pass_returns [OF assms(1) p])
  have "np_binop3 (+) ?H ?L =
        Inr (table3 (dim0 ?L) (dim1 ?L) (dim2 ?L) (\<lambda>i j k. ?H ! i ! j ! k + ?L ! i ! j ! k))"
    by (rule np_binop3_same) (simp_all add: dims_corr_table dims_table3_of)
  also have "table3 (dim0 ?L) (dim1 ?L) (dim2 ?L) (\<lambda>i j k. ?H ! i ! j ! k + ?L ! i ! j ! k) =
        table3 (dim0 ?A) (dim1 ?A) (dim2 ?A) (\<lambda>i j k. ?A ! i ! j ! k)"
    unfolding dims_corr_table by (simp add: table3_def corr_table_def)
  also have "\<dots> = ?A"
    by (rule rect3_table_id [OF assms(1)])
  finally have "np_binop3 (+) ?H ?L = Inr ?A" .
  with hp lp show ?thesis by simp
qed

theorem high_pass_plus_low_pass_witness:
  "\<exists>hp lp. high_pass \<lparr>dtype = UInt8, pixels = [[[5]]]\<rparr> 1 1 = Inr hp
     \<and> low_pass \<lparr>dtype = UInt8, pixels = [[[5]]]\<rparr> 1 1 = Inr lp
     \<and> np_binop3 (+) (pixels hp) (pixels lp) = Inr [[[5]]]"
  using high_pass_plus_low_pass [of "\<lparr>dtype = UInt8, pixels = [[[5]]]\<rparr>" 1 1]
  by (simp add: rect3_def dim1_def dim2_def)

subsection \<open>Kernel shapes and filter parameters that are not checked\<close>

text \<open>
  C7, as the specification states it, fails: neither function checks the parity of the
  kernel shape. A 4 by 5 Gaussian kernel is returned, and a 1 by 2 kernel is correlated
  with a 1 by 2 image, the window reaching one column to the left only.
\<close>

theorem even_kernel_shape_counterexample:
  "gaussian_blur_kernel_2d 1 4 5 = Inr (gauss_kernel 1 4 5)
   \<and> cross_correlation_2d \<lparr>dtype = UInt8, pixels = [[[5], [7]]]\<rparr> [[1, 1]] =
     Inr \<lparr>dtype = Float64, pixels = [[[5], [12]]]\<rparr>"
  by (simp add: gaussian_returns) (simp add: eval_defs)

text \<open>
  C7, amended. No kernel shape is rejected for its parity. For \<open>sigma \<noteq> 0\<close> and
  height and width that are not negative, even or odd, \<open>gaussian_blur_kernel_2d\<close> returns
  the kernel of that shape centred at (h div 2, w div 2); for every rectangular kernel,
  even or odd, \<open>cross_correlation_2d\<close> returns an image of the shape of its input, padded
  by m div 2 and n div 2.
\<close>

theorem kernel_shape_not_checked:
  assumes "sigma \<noteq> 0" "0 \<le> h" "0 \<le> w" "rect3 (pixels img)" "rect2 K"
  shows "(\<exists>G. gaussian_blur_kernel_2d sigma h w = Inr G \<and> length G = nat h
            \<and> (0 < h \<longrightarrow> cols2 G = nat w)
            \<and> (\<forall>i<nat h. \<forall>j<nat w.
                  G ! i ! j = gauss_cell sigma h w i j / np_sum2 (gauss_table sigma h w)))
         \<and> (\<exists>out. cross_correlation_2d img K = Inr out
              \<and> dim0 (pixels out) = dim0 (pixels img)
              \<and> dim1 (pixels out) = dim1 (pixels img)
              \<and> dim2 (pixels out) = dim2 (pixels img)
              \<and> (\<forall>i<dim0 (pixels img). \<forall>j<dim1 (pixels img). \<forall>k<dim2 (pixels img).
                    pixels out ! i ! j ! k = corr_sample (pixels img) K i j k))"
  using assms
  by (simp add: gaussian_returns cross_correlation_table length_gauss_kernel
      cols2_gauss_kernel gauss_kernel_nth dims_corr_table corr_table_nth)

theorem kernel_shape_not_checked_witness:
  "(\<exists>G. gaussian_blur_kernel_2d 1 4 5 = Inr G \<and> length G = 4 \<and> cols2 G = 5)
   \<and> (\<exists>out. cross_correlation_2d \<lparr>dtype = UInt8, pixels = [[[5], [7]]]\<rparr> [[1, 1]] = Inr out
          \<and> dim1 (pixels out) = 2)"
proof -
  have "rect3 (pixels \<lparr>dtype = UInt8, pixels = [[[5], [7::real]]]\<rparr>)" "rect2 [[1, 1::real]]"
    by (simp_all add: rect3_def rect2_def dim1_def dim2_def cols2_def)
  from kernel_shape_not_checked [of 1 4 5, OF _ _ _ this] show ?thesis
    by (auto simp: dim1_def)
qed

text \<open>
  C8, as the specification states it, fails: the filters check neither parameter. With
  \<open>sigma = - 1\<close> the low-pass filter of size 1 returns the image, and with the even
  size 2 both filters return a result.
\<close>

theorem filter_parameter_counterexample:
  "low_pass \<lparr>dtype = UInt8, pixels = [[[5]]]\<rparr> (- 1) 1 = Inr \<lparr>dtype = Float64, pixels = [[[5]]]\<rparr>
   \<and> \<not> isl (low_pass \<lparr>dtype = UInt8, pixels = [[[5]]]\<rparr> 1 2)
   \<and> \<not> isl (high_pass \<lparr>dtype = UInt8, pixels = [[[5]]]\<rparr> 1 2)"
  by (intro conjI)
     (simp add: eval_defs,
      simp_all add: low_pass_returns high_pass_returns rect3_def dim1_def dim2_def)

text \<open>
  C8, amended. \<open>low_pass\<close> and \<open>high_pass\<close> check neither parameter themselves. They raise
  only through the kernel generator: ValueError for a negative size, ZeroDivisionError for
  \<open>sigma = 0\<close> with a positive size. For every other size and sigma, among them an
  even size, the size 0 and a negative sigma, they return an image of the shape of the
  input.
\<close>

theorem filter_parameters_not_checked:
  assumes "rect3 (pixels img)"
  shows "(ksize < 0 \<longrightarrow> low_pass img sigma ksize = Inl ValueError
                      \<and> high_pass img sigma ksize = Inl ValueError)
         \<and> (0 < ksize \<and> sigma = 0 \<longrightarrow> low_pass img sigma ksize = Inl ZeroDivisionError
                                    \<and> high_pass img sigma ksize = Inl ZeroDivisionError)
         \<and> (0 \<le> ksize \<and> (sigma \<noteq> 0 \<or> ksize = 0) \<longrightarrow>
              (\<exists>lp hp. low_pass img sigma ksize = Inr lp \<and> high_pass img sigma ksize = Inr hp
                 \<and> dim0 (pixels lp) = dim0 (pixels img) \<and> dim0 (pixels hp) = dim0 (pixels img)
                 \<and> dim1 (pixels lp) = dim1 (pixels img) \<and> dim1 (pixels hp) = dim1 (pixels img)
                 \<and> dim2 (pixels lp) = dim2 (pixels img) \<and> dim2 (pixels hp) = dim2 (pixels img)))"
proof (intro conjI impI, goal_cases)
  case 5
  then have "0 \<le> ksize" "sigma \<noteq> 0 \<or> ksize = 0" by simp_all
  then show ?case
    by (simp add: low_pass_returns [OF assms] high_pass_returns [OF assms]
        dims_corr_table dims_table3_of)
qed (simp_all add: low_pass_negative high_pass_negative low_pass_zero_sigma high_pass_zero_sigma)

theorem filter_parameters_not_checked_witness:
  "low_pass \<lparr>dtype = UInt8, pixels = [[[5]]]\<rparr> 1 (- 1) = Inl ValueError
   \<and> high_pass \<lparr>dtype = UInt8, pixels = [[[5]]]\<rparr> 0 1 = Inl ZeroDivisionError
   \<and> (\<exists>lp hp. low_pass \<lparr>dtype = UInt8, pixels = [[[5]]]\<rparr> (- 1) 2 = Inr lp
          \<and> high_pass \<lparr>dtype = UInt8, pixels = [[[5]]]\<rparr> (- 1) 2 = Inr hp
          \<and> dim0 (pixels lp) = 1)"
proof -
  have r: "rect3 (pixels \<lparr>dtype = UInt8, pixels = [[[5::real]]]\<rparr>)"
    by (simp add: rect3_def dim1_def dim2_def)
  show ?thesis
    using filter_parameters_not_checked [OF r, of "- 1" 1]
      filter_parameters_not_checked [OF r, of 1 0] filter_parameters_not_checked [OF r, of 2 "- 1"]
    by (auto simp: dim0_def)
qed

subsection \<open>The hybrid image\<close>

lemma dims_map3:
  "dim0 (map (map (map f)) A) = dim0 A" "dim1 (map (map (map f)) A) = dim1 A"
  "dim2 (map (map (map f)) A) = dim2 A"
  by (simp_all add: dim0_def dim1_def dim2_def split: list.splits)

lemma rect3_map3: "rect3 A \<Longrightarrow> rect3 (map (map (map f)) A)"
  unfolding rect3_def dims_map3 by (simp add: list_all_iff)

lemma map3_table3: "map (map (map f)) (table3 h w c g) = table3 h w c (\<lambda>i j k. f (g i j k))"
  by (simp add: table3_def comp_def)

lemma table3_cong:
  "(\<And>i j k. i < h \<Longrightarrow> j < w \<Longrightarrow> k < c \<Longrightarrow> g i j k = g' i j k) \<Longrightarrow>
   table3 h w c g = table3 h w c g'"
  by (simp add: table3_def)

lemma dims_normalized_by:
  "dim0 (normalized_by img1 img) = dim0 (pixels img)"
  "dim1 (normalized_by img1 img) = dim1 (pixels img)"
  "dim2 (normalized_by img1 img) = dim2 (pixels img)"
  by (simp_all add: normalized_by_def dims_map3)

lemma rect3_normalized_by: "rect3 (pixels img) \<Longrightarrow> rect3 (normalized_by img1 img)"
  by (simp add: normalized_by_def rect3_map3)

lemma filter_error_None: "filter_error sigma ksize = None \<longleftrightarrow> 0 \<le> ksize \<and> (sigma \<noteq> 0 \<or> ksize = 0)"
  by (auto simp: filter_error_def)

lemma selected_filter:
  assumes "rect3 (pixels a)"
  shows "(if lower m = ''low'' then low_pass a s z else high_pass a s z) =
         (case filter_error s z of
            Some e \<Rightarrow> Inl e
          | None \<Rightarrow> Inr \<lparr>dtype = Float64,
                        pixels = table3 (dim0 (pixels a)) (dim1 (pixels a)) (dim2 (pixels a))
                                   (filtered_sample m (pixels a) s z)\<rparr>)"
proof (cases "filter_error s z")
  case None
  then have p: "0 \<le> z" "s \<noteq> 0 \<or> z = 0"
    by (simp_all add: filter_error_None)
  have "filtered_sample m (pixels a) s z =
        (if lower m = ''low'' then corr_sample (pixels a) (gauss_kernel s z z)
         else (\<lambda>i j k. pixels a ! i ! j ! k - corr_sample (pixels a) (gauss_kernel s z z) i j k))"
    by (auto simp: filtered_sample_def fun_eq_iff)
  then show ?thesis
    using None
    by (simp add: low_pass_returns [OF assms p] high_pass_returns [OF assms p] corr_table_table3)
next
  case (Some e)
  then show ?thesis
    by (auto simp: filter_error_def low_pass_negative high_pass_negative low_pass_zero_sigma
        high_pass_zero_sigma split: if_splits)
qed

lemma create_hybrid_image_unfold:
  assumes "rect3 (pixels a)" "rect3 (pixels b)"
  shows "create_hybrid_image a b s1 z1 m1 s2 z2 m2 r c =
         (case filter_error s1 z1 of
            Some e \<Rightarrow> Inl e
          | None \<Rightarrow>
             (case filter_error s2 z2 of
                Some e \<Rightarrow> Inl e
              | None \<Rightarrow>
                 ebind (np_binop3 (+)
                    (table3 (dim0 (pixels a)) (dim1 (pixels a)) (dim2 (pixels a))
                       (\<lambda>i j k. filtered_sample m1 (normalized_by a a) s1 z1 i j k * (1 - r)))
                    (table3 (dim0 (pixels b)) (dim1 (pixels b)) (dim2 (pixels b))
                       (\<lambda>i j k. filtered_sample m2 (normalized_by a b) s2 z2 i j k * r)))
                   (\<lambda>s. Inr \<lparr>dtype = UInt8,
                             pixels = map (map (map (\<lambda>x. astype_uint8 (clip 0 255
                                        (x * c * 255))))) s\<rparr>)))"
proof -
  let ?a = "if dtype a = UInt8 then normalize255 a else a"
  let ?b = "if dtype a = UInt8 then normalize255 b else b"
  have px: "pixels ?a = normalized_by a a" "pixels ?b = normalized_by a b"
    by (simp_all add: normalized_by_def normalize255_def)
  have r: "rect3 (pixels ?a)" "rect3 (pixels ?b)"
    unfolding px using assms by (simp_all add: rect3_normalized_by)
  show ?thesis
    unfolding create_hybrid_image_def Let_def selected_filter [OF r(1)] selected_filter [OF r(2)]
      px dims_normalized_by
    by (simp add: scale_by_def map3_table3 comp_def split: option.splits)
qed

lemma np_binop3_not_broadcastable:
  "\<not> broadcastable A B \<Longrightarrow> np_binop3 f A B = Inl ValueError"
  by (auto simp: np_binop3_def broadcastable_def split: option.splits)

lemma np_binop3_broadcastable: "broadcastable A B \<Longrightarrow> \<not> isl (np_binop3 f A B)"
  by (auto simp: np_binop3_def broadcastable_def split: option.splits)

lemma broadcastable_tables:
  "broadcastable (table3 (dim0 A) (dim1 A) (dim2 A) g) (table3 (dim0 B) (dim1 B) (dim2 B) g')
   = broadcastable A B"
  by (simp add: broadcastable_def dims_table3_of)

lemma is_uint8_hybrid_sample: "is_uint8 (hybrid_sample x1 x2 r c)"
proof -
  define y where "y = clip 0 255 ((x1 * (1 - r) + x2 * r) * c * 255)"
  have b: "0 \<le> y" "y \<le> 255"
    by (simp_all add: y_def clip_def)
  then have "0 \<le> \<lfloor>y\<rfloor>" "\<lfloor>y\<rfloor> \<le> 255"
    by (simp_all add: floor_le_iff)
  then have "0 \<le> real_of_int \<lfloor>y\<rfloor>" "real_of_int \<lfloor>y\<rfloor> \<le> 255"
    by simp_all
  with b show ?thesis
    by (simp add: is_uint8_def astype_uint8_def hybrid_sample_def y_def [symmetric])
qed



lemma lower_modes [simp]: "lower ''low'' = ''low''" "lower ''high'' = ''high''"
  by (simp_all add: lower_def lower_char_def)

lemma hybrid_same_shape:
  assumes "rect3 (pixels a)" "rect3 (pixels b)"
    "dim0 (pixels a) = dim0 (pixels b)" "dim1 (pixels a) = dim1 (pixels b)"
    "dim2 (pixels a) = dim2 (pixels b)" "s1 \<noteq> 0" "0 \<le> z1" "s2 \<noteq> 0" "0 \<le> z2"
  shows "create_hybrid_image a b s1 z1 m1 s2 z2 m2 r c =
         Inr \<lparr>dtype = UInt8,
              pixels = table3 (dim0 (pixels a)) (dim1 (pixels a)) (dim2 (pixels a))
                (\<lambda>i j k. hybrid_sample (filtered_sample m1 (normalized_by a a) s1 z1 i j k)
                                        (filtered_sample m2 (normalized_by a b) s2 z2 i j k) r c)\<rparr>"
proof -
  let ?T = "table3 (dim0 (pixels b)) (dim1 (pixels b)) (dim2 (pixels b))"
  let ?g1 = "\<lambda>i j k. filtered_sample m1 (normalized_by a a) s1 z1 i j k * (1 - r)"
  let ?g2 = "\<lambda>i j k. filtered_sample m2 (normalized_by a b) s2 z2 i j k * r"
  have e: "filter_error s1 z1 = None" "filter_error s2 z2 = None"
    using assms(6-9) by (simp_all add: filter_error_None)
  have "np_binop3 (+) (?T ?g1) (?T ?g2) = Inr (?T (\<lambda>i j k. ?T ?g1 ! i ! j ! k + ?T ?g2 ! i ! j ! k))"
    using np_binop3_same [of "?T ?g1" "?T ?g2" "(+)"] by (simp add: dims_table3_of)
  also have "?T (\<lambda>i j k. ?T ?g1 ! i ! j ! k + ?T ?g2 ! i ! j ! k) = ?T (\<lambda>i j k. ?g1 i j k + ?g2 i j k)"
    by (rule table3_cong) (simp add: table3_nth)
  finally show ?thesis
    unfolding create_hybrid_image_unfold [OF assms(1,2)] e assms(3-5)
    by (simp add: map3_table3 hybrid_sample_def)
qed

lemma isl_sum_step:
  "isl (ebind (np_binop3 f A B) (\<lambda>s. Inr (F s))) \<longleftrightarrow> \<not> broadcastable A B"
  using np_binop3_not_broadcastable [of A B f] np_binop3_broadcastable [of A B f]
  by (cases "np_binop3 f A B") auto

lemma hybrid_isl:
  assumes "rect3 (pixels a)" "rect3 (pixels b)"
  shows "isl (create_hybrid_image a b s1 z1 m1 s2 z2 m2 r c) \<longleftrightarrow>
         filter_error s1 z1 \<noteq> None \<or> filter_error s2 z2 \<noteq> None
         \<or> \<not> broadcastable (pixels a) (pixels b)"
  unfolding create_hybrid_image_unfold [OF assms]
  by (auto simp: isl_sum_step broadcastable_tables split: option.splits)

text \<open>
  C2, as the specification states it, fails where the two inputs differ in element type:
  the specification normalises each 8-bit input, the function looks at \<open>img1\<close> only.
  With a float \<open>img1\<close> holding 0 and an 8-bit \<open>img2\<close> holding 255, low-pass filters of
  size 1, ratio 1/2 and scale 1, the function returns 255 (from the undivided 255), where
  the specified pipeline, which divides \<open>img2\<close> by 255, gives 127.
\<close>

theorem per_image_normalisation_counterexample:
  "create_hybrid_image \<lparr>dtype = Float64, pixels = [[[0]]]\<rparr> \<lparr>dtype = UInt8, pixels = [[[255]]]\<rparr>
     1 1 ''low'' 1 1 ''low'' (1 / 2) 1 = Inr \<lparr>dtype = UInt8, pixels = [[[255]]]\<rparr>
   \<and> hybrid_sample
       (filtered_sample ''low'' (normalized_by \<lparr>dtype = Float64, pixels = [[[0]]]\<rparr>
                                   \<lparr>dtype = Float64, pixels = [[[0]]]\<rparr>) 1 1 0 0 0)
       (filtered_sample ''low'' (normalized_by \<lparr>dtype = UInt8, pixels = [[[255]]]\<rparr>
                                   \<lparr>dtype = UInt8, pixels = [[[255]]]\<rparr>) 1 1 0 0 0)
       (1 / 2) 1 = 127"
  by (intro conjI)
     (simp add: eval_defs,
      simp add: hybrid_sample_def filtered_sample_def normalized_by_def corr_sample_def
        gauss_kernel_def gauss_table_def gauss_cell_def padded_sample_def np_sum2_def cols2_def
        dim0_def dim1_def clip_def astype_uint8_def)

text \<open>
  C2, amended. For rectangular images of one shape, sigmas other than 0 and sizes that are
  not negative, \<open>create_hybrid_image\<close> returns an 8-bit image of that shape. Both images are
  divided by 255 exactly when \<open>img1\<close> is 8-bit (\<open>normalized_by img1\<close>); each is filtered by
  its selected low- or high-pass filter (\<open>filtered_sample\<close>); the sample of the result is
  the filtered sample of \<open>img1\<close> times (1 - mixin_ratio) plus that of \<open>img2\<close> times
  mixin_ratio, times scale_factor, times 255, clipped to [0, 255] and truncated
  (\<open>hybrid_sample\<close>). Every sample of the result is a whole number in [0, 255].
\<close>

theorem create_hybrid_image_pipeline:
  assumes "rect3 (pixels img1)" "rect3 (pixels img2)"
    "dim0 (pixels img1) = dim0 (pixels img2)" "dim1 (pixels img1) = dim1 (pixels img2)"
    "dim2 (pixels img1) = dim2 (pixels img2)"
    "sigma1 \<noteq> 0" "0 \<le> size1" "sigma2 \<noteq> 0" "0 \<le> size2"
  shows "\<exists>out. create_hybrid_image img1 img2 sigma1 size1 high_low1 sigma2 size2 high_low2
                  mixin_ratio scale_factor = Inr out
           \<and> dtype out = UInt8
           \<and> dim0 (pixels out) = dim0 (pixels img1)
           \<and> dim1 (pixels out) = dim1 (pixels img1)
           \<and> dim2 (pixels out) = dim2 (pixels img1)
           \<and> rect3 (pixels out)
           \<and> (\<forall>i<dim0 (pixels img1). \<forall>j<dim1 (pixels img1). \<forall>k<dim2 (pixels img1).
                pixels out ! i ! j ! k =
                  hybrid_sample
                    (filtered_sample high_low1 (normalized_by img1 img1) sigma1 size1 i j k)
                    (filtered_sample high_low2 (normalized_by img1 img2) sigma2 size2 i j k)
                    mixin_ratio scale_factor
                \<and> is_uint8 (pixels out ! i ! j ! k))"
  unfolding hybrid_same_shape [OF assms]
  by (simp add: dims_table3_of rect3_table3 table3_nth is_uint8_hybrid_sample)

theorem create_hybrid_image_pipeline_witness:
  "\<exists>out. create_hybrid_image \<lparr>dtype = Float64, pixels = [[[0]]]\<rparr>
           \<lparr>dtype = UInt8, pixels = [[[255]]]\<rparr> 1 1 ''low'' 1 1 ''low'' (1 / 2) 1 = Inr out
      \<and> dtype out = UInt8 \<and> dim0 (pixels out) = 1 \<and> is_uint8 (pixels out ! 0 ! 0 ! 0)"
  using create_hybrid_image_pipeline [of "\<lparr>dtype = Float64, pixels = [[[0]]]\<rparr>"
      "\<lparr>dtype = UInt8, pixels = [[[255]]]\<rparr>" 1 1 1 1 "''low''" "''low''" "1 / 2" 1]
  by (auto simp: rect3_def dim0_def dim1_def dim2_def)

text \<open>
  C6, as the specification states it, fails: there is no shape check. An image of
  height and width 1 by 1 and one of 1 by 2 are both filtered and then added under
  numpy's broadcasting rule, and an image is returned.
\<close>

theorem shape_mismatch_counterexample:
  "create_hybrid_image \<lparr>dtype = UInt8, pixels = [[[255]]]\<rparr>
     \<lparr>dtype = UInt8, pixels = [[[0], [255]]]\<rparr>
     1 1 ''low'' 1 1 ''low'' (1 / 2) 1 = Inr \<lparr>dtype = UInt8, pixels = [[[127], [255]]]\<rparr>
   \<and> dim1 [[[255::real]]] \<noteq> dim1 [[[0], [255::real]]]"
  by (simp add: eval_defs)

text \<open>
  C6, amended. \<open>create_hybrid_image\<close> checks no shape before it filters. Both images are
  filtered first: a failure of the first filter (\<open>sigma1 = 0\<close> with a positive size) is
  raised whatever the shapes are. With filter parameters that do not fail, the call fails
  exactly when the two shapes cannot be broadcast together, with the ValueError of the
  elementwise sum, and shapes that differ only in axes of length 1 yield a result.
\<close>

theorem shape_mismatch_found_by_the_sum:
  assumes "rect3 (pixels img1)" "rect3 (pixels img2)"
  shows "(0 < size1 \<and> sigma1 = 0 \<longrightarrow>
            create_hybrid_image img1 img2 sigma1 size1 high_low1 sigma2 size2 high_low2
              mixin_ratio scale_factor = Inl ZeroDivisionError)
         \<and> (sigma1 \<noteq> 0 \<and> 0 \<le> size1 \<and> sigma2 \<noteq> 0 \<and> 0 \<le> size2 \<longrightarrow>
              (\<not> broadcastable (pixels img1) (pixels img2) \<longrightarrow>
                 create_hybrid_image img1 img2 sigma1 size1 high_low1 sigma2 size2 high_low2
                   mixin_ratio scale_factor = Inl ValueError)
              \<and> (broadcastable (pixels img1) (pixels img2) \<longrightarrow>
                 \<not> isl (create_hybrid_image img1 img2 sigma1 size1 high_low1 sigma2 size2
                          high_low2 mixin_ratio scale_factor)))"
  unfolding hybrid_isl [OF assms]
  unfolding create_hybrid_image_unfold [OF assms]
  by (auto simp: filter_error_def np_binop3_not_broadcastable broadcastable_tables)

theorem shape_mismatch_found_by_the_sum_witness:
  "create_hybrid_image \<lparr>dtype = UInt8, pixels = table3 10 10 1 (\<lambda>i j k. 0)\<rparr>
     \<lparr>dtype = UInt8, pixels = table3 10 12 1 (\<lambda>i j k. 0)\<rparr>
     0 1 ''low'' 1 1 ''high'' (1 / 2) 1 = Inl ZeroDivisionError
   \<and> create_hybrid_image \<lparr>dtype = UInt8, pixels = table3 10 10 1 (\<lambda>i j k. 0)\<rparr>
       \<lparr>dtype = UInt8, pixels = table3 10 12 1 (\<lambda>i j k. 0)\<rparr>
       1 1 ''low'' 1 1 ''high'' (1 / 2) 1 = Inl ValueError
   \<and> \<not> isl (create_hybrid_image \<lparr>dtype = UInt8, pixels = [[[255]]]\<rparr>
              \<lparr>dtype = UInt8, pixels = [[[0], [255]]]\<rparr> 1 1 ''low'' 1 1 ''high'' (1 / 2) 1)"
proof -
  let ?a = "\<lparr>dtype = UInt8, pixels = table3 10 10 1 (\<lambda>i j k. 0)\<rparr>"
  let ?b = "\<lparr>dtype = UInt8, pixels = table3 10 12 1 (\<lambda>i j k. 0)\<rparr>"
  let ?c = "\<lparr>dtype = UInt8, pixels = [[[255::real]]]\<rparr>"
  let ?d = "\<lparr>dtype = UInt8, pixels = [[[0], [255::real]]]\<rparr>"
  have r: "rect3 (pixels ?a)" "rect3 (pixels ?b)"
    and r': "rect3 (pixels ?c)" "rect3 (pixels ?d)"
    by (simp_all add: rect3_table3) (simp_all add: rect3_def dim1_def dim2_def)
  have "\<not> broadcastable (pixels ?a) (pixels ?b)" "broadcastable (pixels ?c) (pixels ?d)"
    by (simp_all add: broadcastable_def dims_table3 bc_dim_def)
       (simp add: dim0_def dim1_def dim2_def)
  then show ?thesis
    using shape_mismatch_found_by_the_sum [OF r, of 1 0 "''low''" 1 1 "''high''" "1 / 2" 1]
      shape_mismatch_found_by_the_sum [OF r, of 1 1 "''low''" 1 1 "''high''" "1 / 2" 1]
      shape_mismatch_found_by_the_sum [OF r', of 1 1 "''low''" 1 1 "''high''" "1 / 2" 1]
    by simp
qed





end
